theory Spec2Isabelle
  imports Complex_Main "HOL-Library.Sublist"
begin

section \<open>Data model (src/src/App.tsx, lines 13-31)\<close>

text \<open>
  The three string-literal unions of the source are datatypes. An \<open>ObjectSpec\<close> is a
  record; a field declared with \<open>?\<close> is an option. \<open>count\<close> is declared without \<open>?\<close>, but
  the clamp pass of \<open>applyPrompt\<close> still reads it as \<open>o.count ?? 1\<close>, so the model lets it be
  absent too. The field \<open>size\<close> is called \<open>size_m\<close> here (\<open>size\<close> is a constant of HOL).

  The record is parametrised by the type \<open>'n\<close> of its numbers. The plans the compiler
  builds and the renderer reads hold finite numbers, modelled by the reals they denote:
  they are of type \<open>real ObjectSpec\<close>. The clamp pass of \<open>applyPrompt\<close> is written for
  plans of any origin, so it is modelled on \<open>double ObjectSpec\<close>, where a number may also be
  \<open>NaN\<close> or an infinity (see the clamp pass below).
\<close>

datatype Motion = orbit | float | none

datatype Shape = sphere | box | torus | icosa

datatype MaterialKind = standard | basic | toon

record 'n ObjectSpec =
  shape :: Shape
  count :: "'n option"
  color :: "string option"
  material :: "MaterialKind option"
  size_m :: "'n option"
  metalness :: "'n option"
  roughness :: "'n option"
  motion :: "Motion option"
  radius :: "'n option"

record 'n ScenePlan =
  objects :: "'n ObjectSpec list"


section \<open>Strings and the regular expression of \<open>pick\<close>\<close>

text \<open>
  A \<open>char\<close> stands for a UTF-16 code unit below 256, so a \<open>string\<close> is a JavaScript
  string over Basic Latin and Latin-1. On that range \<open>toLowerCase\<close> adds 32 to the code of
  \<open>A\<close>..\<open>Z\<close> and of U+00C0..U+00DE except U+00D7; the class \<open>\d\<close> is \<open>0\<close>..\<open>9\<close>; the class
  \<open>\s\<close> is tab, line feed, vertical tab, form feed, carriage return, space and U+00A0.
\<close>

definition is_digit :: "char \<Rightarrow> bool" where
  "is_digit c = (48 \<le> (of_char c :: nat) \<and> (of_char c :: nat) \<le> 57)"

definition is_space :: "char \<Rightarrow> bool" where
  "is_space c = ((of_char c :: nat) \<in> {9, 10, 11, 12, 13, 32, 160})"

definition lower_char :: "char \<Rightarrow> char" where
  "lower_char c =
     (let n = (of_char c :: nat)
      in if (65 \<le> n \<and> n \<le> 90) \<or> (192 \<le> n \<and> n \<le> 222 \<and> n \<noteq> 215)
         then char_of (n + 32) else c)"

definition toLowerCase :: "string \<Rightarrow> string" where
  "toLowerCase s = map lower_char s"

text \<open>\<open>s.includes(kw)\<close>: \<open>kw\<close> occurs in \<open>s\<close> as a contiguous substring.\<close>

fun str_includes :: "string \<Rightarrow> string \<Rightarrow> bool" where
  "str_includes [] kw = (kw = [])"
| "str_includes (c # cs) kw = (prefix kw (c # cs) \<or> str_includes cs kw)"

text \<open>
  \<open>pick\<close> builds the pattern \<open>(\d+)\s+\<close> followed by \<open>kw\<close>, and every \<open>kw\<close> the program
  passes has the form \<open>a|b\<close>. Alternation binds weakest in a regular expression, so the
  pattern \<open>(\d+)\s+a|b\<close> has two alternatives: \<open>(\d+)\s+a\<close>, which sets group 1, and the bare
  literal \<open>b\<close>, which leaves group 1 undefined.

  \<open>alternatives\<close> splits \<open>kw\<close> at each \<open>|\<close> (the keywords hold no other metacharacter).
\<close>

fun alternatives :: "string \<Rightarrow> string list" where
  "alternatives [] = [[]]"
| "alternatives (c # cs) =
     (if c = CHR ''|'' then [] # alternatives cs
      else (case alternatives cs of
              [] \<Rightarrow> [[c]]
            | a # as \<Rightarrow> (c # a) # as))"

text \<open>
  A greedy \<open>x+\<close> at the start of \<open>s\<close> first takes the longest run of \<open>x\<close> and, on
  backtracking, gives characters back one at a time down to a single one.
  \<open>greedy_plus P s\<close> lists (matched, rest) in that order.
\<close>

definition greedy_plus :: "(char \<Rightarrow> bool) \<Rightarrow> string \<Rightarrow> (string \<times> string) list" where
  "greedy_plus P s =
     map (\<lambda>k. (take k s, drop k s)) (rev [1..<Suc (length (takeWhile P s))])"

text \<open>
  \<open>counted a s\<close>: the alternative \<open>(\d+)\s+a\<close> tried at the start of \<open>s\<close>; the result is
  group 1 of the first way of matching the backtracking search finds.
\<close>

definition counted :: "string \<Rightarrow> string \<Rightarrow> string option" where
  "counted a s =
     map_option fst
       (find (\<lambda>(ds, r). list_ex (\<lambda>(ws, r'). prefix a r') (greedy_plus is_space r))
             (greedy_plus is_digit s))"

text \<open>\<open>m[1]\<close> of a match: the digits of group 1, or \<open>undefined\<close>.\<close>

datatype capture = Undefined | Captured string

definition match_here :: "string list \<Rightarrow> string \<Rightarrow> capture option" where
  "match_here alts s =
     (case alts of
        [] \<Rightarrow> None
      | a # bs \<Rightarrow>
          (case counted a s of
             Some ds \<Rightarrow> Some (Captured ds)
           | None \<Rightarrow> if list_ex (\<lambda>b. prefix b s) bs then Some Undefined else None))"

text \<open>
  \<open>lower.match(re)\<close> without the \<open>g\<close> flag: the leftmost start position at which some
  alternative matches, alternatives tried left to right. \<open>None\<close> is \<open>null\<close>.
\<close>

fun exec :: "string list \<Rightarrow> string \<Rightarrow> capture option" where
  "exec alts [] = match_here alts []"
| "exec alts (c # cs) =
     (case match_here alts (c # cs) of
        Some m \<Rightarrow> Some m
      | None \<Rightarrow> exec alts cs)"

text \<open>
  The numbers \<open>pick\<close> yields are \<open>NaN\<close> or a natural number. \<open>parseInt(m[1], 10)\<close> reads
  the leading decimal digits of its argument; \<open>undefined\<close> is first turned into the string
  \<open>undefined\<close>, which has none, so the result is \<open>NaN\<close>. (A capture holds digits only, so the
  sign and leading blanks \<open>parseInt\<close> also accepts never occur.) A digit string too long
  for a double is rounded by \<open>parseInt\<close> to a value that is still at least 200, so
  \<open>Math.min(..., 200)\<close> is the same as on the exact value.
\<close>

datatype number = NaN | Num nat

definition digit_val :: "char \<Rightarrow> nat" where
  "digit_val c = of_char c - 48"

definition parseInt :: "capture \<Rightarrow> number" where
  "parseInt m =
     (case m of
        Undefined \<Rightarrow> NaN
      | Captured s \<Rightarrow>
          (if takeWhile is_digit s = [] then NaN
           else Num (foldl (\<lambda>n c. 10 * n + digit_val c) 0 (takeWhile is_digit s))))"

fun Math_min :: "number \<Rightarrow> nat \<Rightarrow> number" where
  "Math_min NaN k = NaN"
| "Math_min (Num n) k = Num (min n k)"

text \<open>Truthiness of a number, and \<open>a || b\<close>.\<close>

fun truthy :: "number \<Rightarrow> bool" where
  "truthy NaN = False"
| "truthy (Num n) = (n \<noteq> 0)"

definition or_else :: "number \<Rightarrow> number \<Rightarrow> number" where
  "or_else a b = (if truthy a then a else b)"

definition pick :: "string \<Rightarrow> string \<Rightarrow> nat \<Rightarrow> number" where
  "pick lower kw def =
     (case exec (alternatives kw) lower of
        None \<Rightarrow> Num def
      | Some m \<Rightarrow> Math_min (parseInt m) 200)"


section \<open>The directive compiler \<open>planSceneFromTextMock\<close> (lines 40-125)\<close>

text \<open>
  Each \<open>if (n) plan.objects.push({...})\<close> is a function from the list built so far to the
  extended list. The test \<open>if (n)\<close> passes exactly when \<open>n\<close> is a number other than \<open>0\<close>
  and \<open>NaN\<close>, so the pushed \<open>count\<close> is that natural number, and \<open>NaN\<close> is never stored
  in a compiled plan.
\<close>

definition push_sphere ::
  "string \<Rightarrow> real ObjectSpec list \<Rightarrow> real ObjectSpec list" where
  "push_sphere lower objs =
     (let has = str_includes lower;
          spheres = or_else (pick lower ''sphere|spheres'' 0)
                            (if has ''sphere'' then Num 5 else Num 0)
      in if truthy spheres then
           (case spheres of
              NaN \<Rightarrow> objs
            | Num n \<Rightarrow> objs @
              [\<lparr>shape = sphere,
                count = Some (real n),
                color = Some (if has ''red'' then ''tomato''
                              else if has ''blue'' then ''skyblue'' else ''#9cf''),
                material = Some (if has ''metal'' then standard else standard),
                size_m = Some 0.06,
                metalness = Some (if has ''metal'' then 0.9 else 0.2),
                roughness = Some (if has ''metal'' then 0.1 else 0.6),
                motion = Some (if has ''orbit'' then orbit
                               else if has ''float'' then float else none),
                radius = Some (if has ''close'' then 0.5 else 1.2)\<rparr>])
         else objs)"

definition push_box ::
  "string \<Rightarrow> real ObjectSpec list \<Rightarrow> real ObjectSpec list" where
  "push_box lower objs =
     (let has = str_includes lower;
          boxes = or_else (pick lower ''box|boxes'' 0)
                          (if has ''box'' then Num 10 else Num 0)
      in if truthy boxes then
           (case boxes of
              NaN \<Rightarrow> objs
            | Num n \<Rightarrow> objs @
              [\<lparr>shape = box,
                count = Some (real n),
                color = Some (if has ''blue'' then ''deepskyblue'' else ''#ff9''),
                material = Some (if has ''toon'' then toon else standard),
                size_m = Some 0.08,
                metalness = Some 0.1,
                roughness = Some 0.8,
                motion = Some (if has ''float'' then float else orbit),
                radius = Some 1.0\<rparr>])
         else objs)"

definition push_torus ::
  "string \<Rightarrow> real ObjectSpec list \<Rightarrow> real ObjectSpec list" where
  "push_torus lower objs =
     (let has = str_includes lower;
          torus_n = or_else (pick lower ''torus|tori'' 0)
                            (if has ''torus'' then Num 3 else Num 0)
      in if truthy torus_n then
           (case torus_n of
              NaN \<Rightarrow> objs
            | Num n \<Rightarrow> objs @
              [\<lparr>shape = torus,
                count = Some (real n),
                color = Some (if has ''gold'' then ''#d4af37'' else ''#faf''),
                material = Some standard,
                size_m = Some 0.12,
                metalness = Some (if has ''gold'' then 1 else 0.5),
                roughness = Some (if has ''gold'' then 0.2 else 0.5),
                motion = Some orbit,
                radius = Some 1.4\<rparr>])
         else objs)"

definition push_icosa ::
  "string \<Rightarrow> real ObjectSpec list \<Rightarrow> real ObjectSpec list" where
  "push_icosa lower objs =
     (let has = str_includes lower;
          icosa_n = or_else (pick lower ''icosa|icosahedra'' 0)
                            (if has ''icosa'' then Num 6 else Num 0)
      in if truthy icosa_n then
           (case icosa_n of
              NaN \<Rightarrow> objs
            | Num n \<Rightarrow> objs @
              [\<lparr>shape = icosa,
                count = Some (real n),
                color = Some ''#aaf'',
                material = Some standard,
                size_m = Some 0.09,
                metalness = Some 0.2,
                roughness = Some 0.7,
                motion = Some float,
                radius = Some 0.9\<rparr>])
         else objs)"

definition default_object :: "real ObjectSpec" where
  "default_object =
     \<lparr>shape = sphere,
      count = Some 10,
      color = Some ''#9cf'',
      material = Some standard,
      size_m = Some 0.06,
      metalness = Some 0.2,
      roughness = Some 0.7,
      motion = Some orbit,
      radius = Some 1.2\<rparr>"

definition push_default :: "real ObjectSpec list \<Rightarrow> real ObjectSpec list" where
  "push_default objs = (if length objs = 0 then objs @ [default_object] else objs)"

definition planSceneFromTextMock :: "string \<Rightarrow> real ScenePlan" where
  "planSceneFromTextMock input =
     (let lower = toLowerCase input
      in \<lparr>objects =
            push_default (push_icosa lower (push_torus lower (push_box lower
              (push_sphere lower []))))\<rparr>)"


section \<open>The clamp pass of \<open>applyPrompt\<close> (lines 350-366)\<close>

text \<open>\<open>v ?? d\<close>: the default \<open>d\<close> when \<open>v\<close> is \<open>undefined\<close> or \<open>null\<close>.\<close>

fun nullish :: "'a option \<Rightarrow> 'a \<Rightarrow> 'a" where
  "nullish None d = d"
| "nullish (Some v) d = v"

text \<open>
  A JavaScript \<open>number\<close> as the clamp pass may meet it: \<open>NaN\<close>, an infinity, or a finite
  value, the latter modelled by the real it denotes. \<open>Math.max\<close> and \<open>Math.min\<close> return
  \<open>NaN\<close> as soon as one argument is \<open>NaN\<close>, and otherwise one of their arguments, so they
  are exact on this reading.
\<close>

datatype double = NotANumber | NegInf | Fin real | PosInf

fun Math_max_d :: "double \<Rightarrow> double \<Rightarrow> double" where
  "Math_max_d NotANumber y = NotANumber"
| "Math_max_d x NotANumber = NotANumber"
| "Math_max_d PosInf y = PosInf"
| "Math_max_d x PosInf = PosInf"
| "Math_max_d NegInf y = y"
| "Math_max_d x NegInf = x"
| "Math_max_d (Fin a) (Fin b) = Fin (max a b)"

fun Math_min_d :: "double \<Rightarrow> double \<Rightarrow> double" where
  "Math_min_d NotANumber y = NotANumber"
| "Math_min_d x NotANumber = NotANumber"
| "Math_min_d NegInf y = NegInf"
| "Math_min_d x NegInf = NegInf"
| "Math_min_d PosInf y = y"
| "Math_min_d x PosInf = x"
| "Math_min_d (Fin a) (Fin b) = Fin (min a b)"

text \<open>
  The body of \<open>plan.objects.forEach\<close>; the five assignments touch distinct fields.
  \<open>??\<close> replaces only a missing value, so a field holding \<open>NaN\<close> keeps it.
\<close>

definition clamp_object :: "double ObjectSpec \<Rightarrow> double ObjectSpec" where
  "clamp_object ob =
     ob\<lparr>count := Some (Math_min_d (Math_max_d (nullish (count ob) (Fin 1)) (Fin 1)) (Fin 200)),
        size_m :=
          Some (Math_min_d (Math_max_d (nullish (size_m ob) (Fin 0.06)) (Fin 0.02)) (Fin 0.4)),
        radius := Some (Math_min_d (Math_max_d (nullish (radius ob) (Fin 1.2)) (Fin 0.2)) (Fin 5)),
        metalness :=
          Some (Math_min_d (Math_max_d (nullish (metalness ob) (Fin 0.2)) (Fin 0)) (Fin 1)),
        roughness :=
          Some (Math_min_d (Math_max_d (nullish (roughness ob) (Fin 0.7)) (Fin 0)) (Fin 1))\<rparr>"

definition clamp_pass :: "double ScenePlan \<Rightarrow> double ScenePlan" where
  "clamp_pass plan = plan\<lparr>objects := map clamp_object (objects plan)\<rparr>"

text \<open>
  A plan of finite numbers as the JavaScript object it is: every number \<open>x\<close> becomes
  \<open>Fin x\<close>, everything else is kept.
\<close>

definition js_object :: "real ObjectSpec \<Rightarrow> double ObjectSpec" where
  "js_object ob =
     \<lparr>shape = shape ob,
      count = map_option Fin (count ob),
      color = color ob,
      material = material ob,
      size_m = map_option Fin (size_m ob),
      metalness = map_option Fin (metalness ob),
      roughness = map_option Fin (roughness ob),
      motion = motion ob,
      radius = map_option Fin (radius ob)\<rparr>"

definition js_plan :: "real ScenePlan \<Rightarrow> double ScenePlan" where
  "js_plan plan = \<lparr>objects = map js_object (objects plan)\<rparr>"

text \<open>The plan \<open>applyPrompt\<close> hands to \<open>setPlan\<close>.\<close>

definition applyPrompt :: "string \<Rightarrow> double ScenePlan" where
  "applyPrompt prompt = clamp_pass (js_plan (planSceneFromTextMock prompt))"

text \<open>\<open>present_in v lo hi\<close>: the field \<open>v\<close> is present and lies in \<open>[lo, hi]\<close>.\<close>

fun present_in :: "real option \<Rightarrow> real \<Rightarrow> real \<Rightarrow> bool" where
  "present_in None lo hi = False"
| "present_in (Some x) lo hi = (lo \<le> x \<and> x \<le> hi)"

text \<open>The ranges the clamp pass aims at, every numeric field present.\<close>

abbreviation in_clamp_ranges :: "real ObjectSpec \<Rightarrow> bool" where
  "in_clamp_ranges ob \<equiv>
     present_in (count ob) 1 200 \<and>
     present_in (size_m ob) 0.02 0.4 \<and>
     present_in (radius ob) 0.2 5 \<and>
     present_in (metalness ob) 0 1 \<and>
     present_in (roughness ob) 0 1"

text \<open>An entry the clamp pass has nothing left to do on: in range, no field missing.\<close>

abbreviation settled :: "real ObjectSpec \<Rightarrow> bool" where
  "settled ob \<equiv>
     in_clamp_ranges ob \<and> color ob \<noteq> None \<and> material ob \<noteq> None \<and>
     motion ob \<noteq> None \<and> clamp_object (js_object ob) = js_object ob"

text \<open>
  \<open>fin_in v lo hi\<close>: the field \<open>v\<close> of a JavaScript object is present, finite and lies in
  \<open>[lo, hi]\<close>.
\<close>

fun fin_in :: "double option \<Rightarrow> real \<Rightarrow> real \<Rightarrow> bool" where
  "fin_in (Some (Fin x)) lo hi = (lo \<le> x \<and> x \<le> hi)"
| "fin_in v lo hi = False"


section \<open>The instance layout of \<open>FloatingObjects\<close> (lines 167-180)\<close>

text \<open>
  One element of \<open>instances\<close>. The source's fields \<open>y\<close> and \<open>r\<close> are \<open>y_i\<close> and \<open>r_i\<close>.
\<close>

record Instance =
  ang :: real
  y_i :: real
  speed :: real
  r_i :: real

datatype js_error = RangeError

text \<open>
  \<open>Array.from({ length: n })\<close> reads the length with \<open>ToLength\<close>: \<open>undefined\<close> and
  everything not above 0 give 0, a positive number is truncated and capped at
  \<open>2^53 - 1\<close>. Creating the array raises \<open>RangeError\<close> when that length exceeds
  \<open>2^32 - 1\<close>.
\<close>

definition ToLength :: "real option \<Rightarrow> nat" where
  "ToLength v =
     (case v of
        None \<Rightarrow> 0
      | Some c \<Rightarrow> if c \<le> 0 then 0 else min (nat \<lfloor>c\<rfloor>) (2 ^ 53 - 1))"

text \<open>
  The value \<open>useMemo\<close> computes, for a spec and a seed. With \<open>count\<close> absent the array is
  empty and the callback, which divides by \<open>spec.count\<close>, is never called.
\<close>

definition instances :: "real ObjectSpec \<Rightarrow> real \<Rightarrow> js_error + Instance list" where
  "instances spec seed =
     (let r = max (nullish (radius spec) 1.2) 0.2;
          len = ToLength (count spec)
      in if 2 ^ 32 \<le> len then Inl RangeError
         else (case count spec of
                 None \<Rightarrow> Inr []
               | Some cnt \<Rightarrow>
                   Inr (map (\<lambda>i.
                          \<lparr>ang = ((real i + seed) / cnt) * pi * 2,
                           y_i = (sin (real i * 12.9898 + seed) * 0.5 + 0.5) * 0.6 + 0.2,
                           speed = 0.4 + real (i mod 7) * 0.03,
                           r_i = r * (0.9 + real (i mod 5) * 0.02)\<rparr>)
                        [0..<len])))"


section \<open>The per-frame update of \<open>FloatingObjects\<close> (lines 182-198)\<close>

text \<open>
  A child of the group: its position vector and its Euler rotation, both as \<open>(x, y, z)\<close>.
\<close>

record Object3D =
  position :: "real \<times> real \<times> real"
  rotation :: "real \<times> real \<times> real"

text \<open>
  The body of \<open>children.forEach\<close> for child \<open>i\<close>. \<open>now\<close> is the value of
  \<open>performance.now()\<close> and \<open>dt\<close> the frame delta. \<open>instances[i]\<close> is \<open>undefined\<close> beyond the
  end of the array, and then the child is left alone.
\<close>

definition update_child ::
  "real ObjectSpec \<Rightarrow> Instance list \<Rightarrow> real \<Rightarrow> real \<Rightarrow> nat \<Rightarrow> Object3D \<Rightarrow> Object3D" where
  "update_child spec insts now dt i obj =
     (if length insts \<le> i then obj
      else
        (let it = insts ! i in
         if motion spec = Some orbit then
           (let a = ang it + speed it * now * 0.00015 in
            case rotation obj of (rx, ry, rz) \<Rightarrow>
              obj\<lparr>position := (cos a * r_i it, y_i it, sin a * r_i it),
                  rotation := (rx, ry + dt * 0.5, rz)\<rparr>)
         else if motion spec = Some float then
           (case position obj of (px, py, pz) \<Rightarrow>
            case rotation obj of (rx, ry, rz) \<Rightarrow>
              obj\<lparr>position := (px, y_i it + sin (now * 0.001 + real i) * 0.1, pz),
                  rotation := (rx + dt * 0.3, ry + dt * 0.2, rz)\<rparr>)
         else obj))"

text \<open>
  One call of the \<open>useFrame\<close> callback on \<open>grp\<close>, the children of \<open>group.current\<close>;
  \<open>grp\<close> is \<open>None\<close> while the group is not mounted, and then the callback returns at once.
\<close>

definition useFrame ::
  "real ObjectSpec \<Rightarrow> Instance list \<Rightarrow> real \<times> real \<Rightarrow> Object3D list option
     \<Rightarrow> Object3D list option" where
  "useFrame spec insts frame grp =
     (case grp of
        None \<Rightarrow> None
      | Some children \<Rightarrow>
          Some (map (\<lambda>(i, child). update_child spec insts (fst frame) (snd frame) i child)
                    (enumerate 0 children)))"

text \<open>A run of the render loop: the callback once per frame \<open>(now, dt)\<close>, in order.\<close>

definition run_frames ::
  "real ObjectSpec \<Rightarrow> Instance list \<Rightarrow> (real \<times> real) list \<Rightarrow> Object3D list option
     \<Rightarrow> Object3D list option" where
  "run_frames spec insts frames grp =
     foldl (\<lambda>g frame. useFrame spec insts frame g) grp frames"


section \<open>The scale of \<open>TowerModel\<close> (lines 239-246)\<close>



section \<open>Facts about substring search and \<open>pick\<close>\<close>

lemma str_includes_sublist: "str_includes s kw = sublist kw s"
  by (induction s) (auto simp: sublist_Cons_right)

lemma greedy_plus_concat: "(ds, r) \<in> set (greedy_plus P s) \<Longrightarrow> s = ds @ r"
  by (auto simp: greedy_plus_def)

lemma find_Some_mem: "find P xs = Some x \<Longrightarrow> x \<in> set xs \<and> P x"
  by (induction xs) (auto split: if_splits)

lemma counted_sublist:
  assumes "counted a s = Some ds"
  shows "sublist a s"
proof -
  from assms obtain r where
    "find (\<lambda>(ds, r). list_ex (\<lambda>(ws, r'). prefix a r') (greedy_plus is_space r))
          (greedy_plus is_digit s) = Some (ds, r)"
    by (auto simp: counted_def)
  then have "(ds, r) \<in> set (greedy_plus is_digit s)"
    and "list_ex (\<lambda>(ws, r'). prefix a r') (greedy_plus is_space r)"
    by (auto dest: find_Some_mem)
  then obtain ws r' where "s = ds @ r" "r = ws @ r'" "prefix a r'"
    by (auto simp: list_ex_iff dest!: greedy_plus_concat)
  then show ?thesis
    by (auto simp: sublist_def prefix_def) (metis append.assoc)
qed

lemma exec_Captured_sublist:
  "exec (a # bs) s = Some (Captured ds) \<Longrightarrow> sublist a s"
  by (induction s)
     (auto simp: match_here_def sublist_Cons_right split: option.splits if_splits
           dest: counted_sublist)

lemma pick_truthy_includes:
  assumes "alternatives kw = a # bs" and "truthy (pick lower kw 0)"
  shows "str_includes lower a"
proof (cases "exec (a # bs) lower")
  case None
  with assms show ?thesis by (simp add: pick_def)
next
  case (Some m)
  show ?thesis
  proof (cases m)
    case Undefined
    with Some assms show ?thesis by (simp add: pick_def parseInt_def)
  next
    case (Captured ds)
    with Some have "sublist a lower" by (auto dest: exec_Captured_sublist)
    then show ?thesis by (simp add: str_includes_sublist)
  qed
qed

lemma pick_le_200: "pick lower kw 0 = Num n \<Longrightarrow> n \<le> 200"
  by (auto simp: pick_def parseInt_def split: option.splits capture.splits if_splits)

lemma count_value_cases:
  assumes "alternatives kw = a # bs" and "1 \<le> d" and "d \<le> 200"
  shows "(\<not> str_includes lower a \<and>
            or_else (pick lower kw 0) (if str_includes lower a then Num d else Num 0) = Num 0)
       \<or> (str_includes lower a \<and>
            (\<exists>n. or_else (pick lower kw 0) (if str_includes lower a then Num d else Num 0) = Num n
                 \<and> 1 \<le> n \<and> n \<le> 200))"
proof (cases "truthy (pick lower kw 0)")
  case True
  then obtain n where n: "pick lower kw 0 = Num n" "n \<noteq> 0"
    by (cases "pick lower kw 0") auto
  with pick_le_200 [of lower kw n] pick_truthy_includes [OF assms(1) True] True
  show ?thesis by (auto simp: or_else_def)
next
  case False
  with assms show ?thesis by (auto simp: or_else_def)
qed

lemma alternatives_sphere: "alternatives ''sphere|spheres'' = [''sphere'', ''spheres'']"
  by simp
lemma alternatives_box: "alternatives ''box|boxes'' = [''box'', ''boxes'']"
  by simp
lemma alternatives_torus: "alternatives ''torus|tori'' = [''torus'', ''tori'']"
  by simp
lemma alternatives_icosa: "alternatives ''icosa|icosahedra'' = [''icosa'', ''icosahedra'']"
  by simp


lemma push_sphere_cases:
  "(\<not> str_includes lower ''sphere'' \<and> push_sphere lower objs = objs) \<or>
   (str_includes lower ''sphere'' \<and>
    (\<exists>n. 1 \<le> n \<and> n \<le> 200 \<and> push_sphere lower objs = objs @
       [\<lparr>shape = sphere,
         count = Some (real n),
         color = Some (if str_includes lower ''red'' then ''tomato''
                       else if str_includes lower ''blue'' then ''skyblue'' else ''#9cf''),
         material = Some standard,
         size_m = Some 0.06,
         metalness = Some (if str_includes lower ''metal'' then 0.9 else 0.2),
         roughness = Some (if str_includes lower ''metal'' then 0.1 else 0.6),
         motion = Some (if str_includes lower ''orbit'' then orbit
                        else if str_includes lower ''float'' then float else none),
         radius = Some (if str_includes lower ''close'' then 0.5 else 1.2)\<rparr>]))"
  using count_value_cases [OF alternatives_sphere, of 5 lower]
  by (auto simp: push_sphere_def Let_def)

lemma push_box_cases:
  "(\<not> str_includes lower ''box'' \<and> push_box lower objs = objs) \<or>
   (str_includes lower ''box'' \<and>
    (\<exists>n. 1 \<le> n \<and> n \<le> 200 \<and> push_box lower objs = objs @
       [\<lparr>shape = box,
         count = Some (real n),
         color = Some (if str_includes lower ''blue'' then ''deepskyblue'' else ''#ff9''),
         material = Some (if str_includes lower ''toon'' then toon else standard),
         size_m = Some 0.08,
         metalness = Some 0.1,
         roughness = Some 0.8,
         motion = Some (if str_includes lower ''float'' then float else orbit),
         radius = Some 1.0\<rparr>]))"
  using count_value_cases [OF alternatives_box, of 10 lower]
  by (auto simp: push_box_def Let_def)

lemma push_torus_cases:
  "(\<not> str_includes lower ''torus'' \<and> push_torus lower objs = objs) \<or>
   (str_includes lower ''torus'' \<and>
    (\<exists>n. 1 \<le> n \<and> n \<le> 200 \<and> push_torus lower objs = objs @
       [\<lparr>shape = torus,
         count = Some (real n),
         color = Some (if str_includes lower ''gold'' then ''#d4af37'' else ''#faf''),
         material = Some standard,
         size_m = Some 0.12,
         metalness = Some (if str_includes lower ''gold'' then 1 else 0.5),
         roughness = Some (if str_includes lower ''gold'' then 0.2 else 0.5),
         motion = Some orbit,
         radius = Some 1.4\<rparr>]))"
  using count_value_cases [OF alternatives_torus, of 3 lower]
  by (auto simp: push_torus_def Let_def)

lemma push_icosa_cases:
  "(\<not> str_includes lower ''icosa'' \<and> push_icosa lower objs = objs) \<or>
   (str_includes lower ''icosa'' \<and>
    (\<exists>n. 1 \<le> n \<and> n \<le> 200 \<and> push_icosa lower objs = objs @
       [\<lparr>shape = icosa,
         count = Some (real n),
         color = Some ''#aaf'',
         material = Some standard,
         size_m = Some 0.09,
         metalness = Some 0.2,
         roughness = Some 0.7,
         motion = Some float,
         radius = Some 0.9\<rparr>]))"
  using count_value_cases [OF alternatives_icosa, of 6 lower]
  by (auto simp: push_icosa_def Let_def)


section \<open>The compiler never returns an empty plan\<close>

lemma push_default_nonempty: "push_default objs \<noteq> []"
  by (simp add: push_default_def)

lemma compile_nonempty: "objects (planSceneFromTextMock input) \<noteq> []"
  by (simp add: planSceneFromTextMock_def Let_def push_default_nonempty)

lemma compile_no_keyword:
  assumes "\<not> str_includes (toLowerCase input) ''sphere''"
      and "\<not> str_includes (toLowerCase input) ''box''"
      and "\<not> str_includes (toLowerCase input) ''torus''"
      and "\<not> str_includes (toLowerCase input) ''icosa''"
  shows "objects (planSceneFromTextMock input) = [default_object]"
proof -
  let ?l = "toLowerCase input"
  have 1: "push_sphere ?l [] = []"
    using push_sphere_cases [of ?l "[]"] assms(1) by blast
  have 2: "push_box ?l [] = []"
    using push_box_cases [of ?l "[]"] assms(2) by blast
  have 3: "push_torus ?l [] = []"
    using push_torus_cases [of ?l "[]"] assms(3) by blast
  have 4: "push_icosa ?l [] = []"
    using push_icosa_cases [of ?l "[]"] assms(4) by blast
  show ?thesis
    by (simp add: planSceneFromTextMock_def Let_def 1 2 3 4 push_default_def)
qed

lemma lower_empty: "toLowerCase [] = []"
  by (simp add: toLowerCase_def)

text \<open>
  Claim C7. For every input text the compiled plan is non-empty. When the lowercased text
  contains none of the category keywords \<open>sphere\<close>, \<open>box\<close>, \<open>torus\<close>, \<open>icosa\<close> (so in
  particular for the empty string) the plan is exactly the one default entry: a sphere with
  count 10, color \<open>#9cf\<close> and motion \<open>orbit\<close>. \<open>planSceneFromTextMock\<close> is a total function
  with no error value: nothing in the source function can raise.
\<close>

theorem compile_total_nonempty_default:
  "objects (planSceneFromTextMock input) \<noteq> [] \<and>
   (\<not> str_includes (toLowerCase input) ''sphere'' \<and>
    \<not> str_includes (toLowerCase input) ''box'' \<and>
    \<not> str_includes (toLowerCase input) ''torus'' \<and>
    \<not> str_includes (toLowerCase input) ''icosa'' \<longrightarrow>
      planSceneFromTextMock input =
        \<lparr>objects = [\<lparr>shape = sphere, count = Some 10, color = Some ''#9cf'',
                      material = Some standard, size_m = Some 0.06, metalness = Some 0.2,
                      roughness = Some 0.7, motion = Some orbit, radius = Some 1.2\<rparr>]\<rparr>) \<and>
   planSceneFromTextMock '''' =
     \<lparr>objects = [\<lparr>shape = sphere, count = Some 10, color = Some ''#9cf'',
                   material = Some standard, size_m = Some 0.06, metalness = Some 0.2,
                   roughness = Some 0.7, motion = Some orbit, radius = Some 1.2\<rparr>]\<rparr>"
proof (intro conjI impI)
  show "objects (planSceneFromTextMock input) \<noteq> []" by (rule compile_nonempty)
next
  assume a: "\<not> str_includes (toLowerCase input) ''sphere'' \<and>
    \<not> str_includes (toLowerCase input) ''box'' \<and>
    \<not> str_includes (toLowerCase input) ''torus'' \<and>
    \<not> str_includes (toLowerCase input) ''icosa''"
  then have "objects (planSceneFromTextMock input) = [default_object]"
    by (intro compile_no_keyword) simp_all
  then show "planSceneFromTextMock input =
        \<lparr>objects = [\<lparr>shape = sphere, count = Some 10, color = Some ''#9cf'',
                      material = Some standard, size_m = Some 0.06, metalness = Some 0.2,
                      roughness = Some 0.7, motion = Some orbit, radius = Some 1.2\<rparr>]\<rparr>"
    by (simp add: default_object_def)
next
  have "objects (planSceneFromTextMock '''') = [default_object]"
    by (intro compile_no_keyword) (simp_all add: lower_empty)
  then show "planSceneFromTextMock '''' =
     \<lparr>objects = [\<lparr>shape = sphere, count = Some 10, color = Some ''#9cf'',
                   material = Some standard, size_m = Some 0.06, metalness = Some 0.2,
                   roughness = Some 0.7, motion = Some orbit, radius = Some 1.2\<rparr>]\<rparr>"
    by (simp add: default_object_def)
qed

lemma lower_hello: "toLowerCase ''Hello tori'' = ''hello tori''"
  by code_simp

theorem compile_total_nonempty_default_witness:
  "objects (planSceneFromTextMock ''Hello tori'') \<noteq> [] \<and>
   \<not> str_includes (toLowerCase ''Hello tori'') ''sphere'' \<and>
   \<not> str_includes (toLowerCase ''Hello tori'') ''box'' \<and>
   \<not> str_includes (toLowerCase ''Hello tori'') ''torus'' \<and>
   \<not> str_includes (toLowerCase ''Hello tori'') ''icosa'' \<and>
   planSceneFromTextMock ''Hello tori'' =
        \<lparr>objects = [\<lparr>shape = sphere, count = Some 10, color = Some ''#9cf'',
                      material = Some standard, size_m = Some 0.06, metalness = Some 0.2,
                      roughness = Some 0.7, motion = Some orbit, radius = Some 1.2\<rparr>]\<rparr>"
  using compile_total_nonempty_default [of "''Hello tori''"]
  by (simp add: lower_hello)

section \<open>Compiler output is already in range\<close>

lemma push_sphere_settled:
  "ob \<in> set (push_sphere lower objs) \<Longrightarrow> ob \<in> set objs \<or> settled ob"
  using push_sphere_cases [of lower objs]
  by (auto simp: clamp_object_def js_object_def)

lemma push_box_settled:
  "ob \<in> set (push_box lower objs) \<Longrightarrow> ob \<in> set objs \<or> settled ob"
  using push_box_cases [of lower objs]
  by (auto simp: clamp_object_def js_object_def)

lemma push_torus_settled:
  "ob \<in> set (push_torus lower objs) \<Longrightarrow> ob \<in> set objs \<or> settled ob"
  using push_torus_cases [of lower objs]
  by (auto simp: clamp_object_def js_object_def)

lemma push_icosa_settled:
  "ob \<in> set (push_icosa lower objs) \<Longrightarrow> ob \<in> set objs \<or> settled ob"
  using push_icosa_cases [of lower objs]
  by (auto simp: clamp_object_def js_object_def)

lemma default_settled: "settled default_object"
  by (simp add: default_object_def clamp_object_def js_object_def)

lemma push_default_settled:
  "ob \<in> set (push_default objs) \<Longrightarrow> ob \<in> set objs \<or> settled ob"
  using default_settled by (auto simp: push_default_def split: if_splits)

lemma compile_settled:
  assumes "ob \<in> set (objects (planSceneFromTextMock input))"
  shows "settled ob"
proof -
  let ?l = "toLowerCase input"
  from assms have "ob \<in> set (push_default (push_icosa ?l (push_torus ?l (push_box ?l
              (push_sphere ?l [])))))"
    by (simp add: planSceneFromTextMock_def Let_def)
  then have "ob \<in> set (push_icosa ?l (push_torus ?l (push_box ?l (push_sphere ?l [])))) \<or> settled ob"
    by (rule push_default_settled)
  then have "ob \<in> set (push_torus ?l (push_box ?l (push_sphere ?l []))) \<or> settled ob"
    using push_icosa_settled by blast
  then have "ob \<in> set (push_box ?l (push_sphere ?l [])) \<or> settled ob"
    using push_torus_settled by blast
  then have "ob \<in> set (push_sphere ?l []) \<or> settled ob"
    using push_box_settled by blast
  then have "ob \<in> set [] \<or> settled ob"
    using push_sphere_settled by blast
  then show ?thesis by simp
qed

text \<open>
  Claim C9. For every input text, every entry of the compiled plan has all five numeric
  fields present and inside the clamp ranges (count in 1..200, size in 0.02..0.4, radius in
  0.2..5, metalness and roughness in 0..1), and its color, material and motion are present
  as well. The clamp pass therefore returns the compiled plan (as the JavaScript object
  \<open>js_plan\<close> of it) unchanged, so the plan the application starts with, which is compiled
  but not clamped, is in range too.
\<close>

theorem compile_already_clamped:
  "(\<forall>ob \<in> set (objects (planSceneFromTextMock input)).
      in_clamp_ranges ob \<and> color ob \<noteq> None \<and> material ob \<noteq> None \<and> motion ob \<noteq> None) \<and>
   clamp_pass (js_plan (planSceneFromTextMock input)) = js_plan (planSceneFromTextMock input)"
proof
  show "\<forall>ob \<in> set (objects (planSceneFromTextMock input)).
      in_clamp_ranges ob \<and> color ob \<noteq> None \<and> material ob \<noteq> None \<and> motion ob \<noteq> None"
    using compile_settled [of _ input] by blast
next
  have "map (clamp_object \<circ> js_object) (objects (planSceneFromTextMock input))
          = map js_object (objects (planSceneFromTextMock input))"
    using compile_settled [of _ input] by (intro map_cong) simp_all
  then show "clamp_pass (js_plan (planSceneFromTextMock input))
               = js_plan (planSceneFromTextMock input)"
    by (simp add: clamp_pass_def js_plan_def)
qed

lemma compile_ten_boxes:
  "planSceneFromTextMock ''10 boxes'' =
     \<lparr>objects =
        [\<lparr>shape = box, count = Some 10, color = Some ''#ff9'', material = Some standard,
          size_m = Some 0.08, metalness = Some 0.1, roughness = Some 0.8,
          motion = Some orbit, radius = Some 1.0\<rparr>]\<rparr>"
  by code_simp

theorem compile_already_clamped_witness:
  "hd (objects (planSceneFromTextMock ''10 boxes''))
     \<in> set (objects (planSceneFromTextMock ''10 boxes'')) \<and>
   in_clamp_ranges (hd (objects (planSceneFromTextMock ''10 boxes''))) \<and>
   color (hd (objects (planSceneFromTextMock ''10 boxes''))) \<noteq> None \<and>
   material (hd (objects (planSceneFromTextMock ''10 boxes''))) \<noteq> None \<and>
   motion (hd (objects (planSceneFromTextMock ''10 boxes''))) \<noteq> None \<and>
   clamp_pass (js_plan (planSceneFromTextMock ''10 boxes''))
     = js_plan (planSceneFromTextMock ''10 boxes'')"
proof -
  have mem: "hd (objects (planSceneFromTextMock ''10 boxes''))
               \<in> set (objects (planSceneFromTextMock ''10 boxes''))"
    by (simp add: compile_ten_boxes)
  with compile_already_clamped [of "''10 boxes''"] show ?thesis
    by blast
qed


section \<open>The compiler on the default prompt, and on a plural keyword\<close>

text \<open>
  Claim C1 says that the directive
  \<open>20 red spheres orbit, 5 gold torus, add 10 blue boxes floating\<close> compiles to a sphere entry
  of count 20, a box entry of count 10 and a torus entry of count 5. The program computes
  something else. In \<open>20 red spheres\<close> the word \<open>red\<close> stands between the number and the
  keyword, so \<open>(\d+)\s+sphere\<close> does not match; the pattern's second alternative \<open>spheres\<close>
  does, with group 1 undefined, and \<open>pick\<close> returns \<open>NaN\<close>. The sphere count falls back to
  the implicit 5. In the same way the torus count is the implicit 3, and the box count is 10
  only because the implicit box count is 10. Colors, metalness and motions are as the claim
  has them. This is the plan the program computes:
\<close>

theorem compile_default_prompt:
  "planSceneFromTextMock ''20 red spheres orbit, 5 gold torus, add 10 blue boxes floating'' =
     \<lparr>objects =
        [\<lparr>shape = sphere, count = Some 5, color = Some ''tomato'', material = Some standard,
          size_m = Some 0.06, metalness = Some 0.2, roughness = Some 0.6,
          motion = Some orbit, radius = Some 1.2\<rparr>,
         \<lparr>shape = box, count = Some 10, color = Some ''deepskyblue'', material = Some standard,
          size_m = Some 0.08, metalness = Some 0.1, roughness = Some 0.8,
          motion = Some float, radius = Some 1.0\<rparr>,
         \<lparr>shape = torus, count = Some 3, color = Some ''#d4af37'', material = Some standard,
          size_m = Some 0.12, metalness = Some 1, roughness = Some 0.2,
          motion = Some orbit, radius = Some 1.4\<rparr>]\<rparr>"
  by code_simp

text \<open>
  Claim C8 says that an explicit count is read from a number followed by the category
  keyword in its singular or its plural form. The program writes the plural into the pattern
  (\<open>torus|tori\<close>), but the alternation splits the whole pattern, so a number before the
  plural is read only when the singular is a prefix of the plural. On \<open>5 tori\<close> the pattern
  matches the bare \<open>tori\<close>, \<open>pick\<close> returns \<open>NaN\<close>, the text does not contain \<open>torus\<close>, and no
  torus entry is made at all: the plan is the default one.
\<close>

theorem compile_five_tori:
  "pick ''5 tori'' ''torus|tori'' 0 = NaN \<and>
   planSceneFromTextMock ''5 tori'' =
     \<lparr>objects = [\<lparr>shape = sphere, count = Some 10, color = Some ''#9cf'',
                   material = Some standard, size_m = Some 0.06, metalness = Some 0.2,
                   roughness = Some 0.7, motion = Some orbit, radius = Some 1.2\<rparr>]\<rparr>"
  by code_simp


section \<open>Style keywords are searched in the whole text\<close>

lemma push_sphere_nonempty:
  "str_includes lower ''sphere'' \<or> objs \<noteq> [] \<Longrightarrow> push_sphere lower objs \<noteq> []"
  using push_sphere_cases [of lower objs] by auto

lemma push_box_nonempty:
  "str_includes lower ''box'' \<or> objs \<noteq> [] \<Longrightarrow> push_box lower objs \<noteq> []"
  using push_box_cases [of lower objs] by auto

lemma push_torus_nonempty:
  "str_includes lower ''torus'' \<or> objs \<noteq> [] \<Longrightarrow> push_torus lower objs \<noteq> []"
  using push_torus_cases [of lower objs] by auto

lemma push_icosa_nonempty:
  "str_includes lower ''icosa'' \<or> objs \<noteq> [] \<Longrightarrow> push_icosa lower objs \<noteq> []"
  using push_icosa_cases [of lower objs] by auto

lemma push_sphere_red:
  "str_includes lower ''red'' \<Longrightarrow> ob \<in> set (push_sphere lower objs) \<Longrightarrow>
     ob \<in> set objs \<or> color ob = Some ''tomato''"
  using push_sphere_cases [of lower objs] by auto

lemma push_box_shape:
  "ob \<in> set (push_box lower objs) \<Longrightarrow> ob \<in> set objs \<or> shape ob = box"
  using push_box_cases [of lower objs] by auto

lemma push_torus_shape:
  "ob \<in> set (push_torus lower objs) \<Longrightarrow> ob \<in> set objs \<or> shape ob = torus"
  using push_torus_cases [of lower objs] by auto

lemma push_icosa_shape:
  "ob \<in> set (push_icosa lower objs) \<Longrightarrow> ob \<in> set objs \<or> shape ob = icosa"
  using push_icosa_cases [of lower objs] by auto

text \<open>
  Claim C10, amended. Keyword detection looks at the whole lowercased text. For every
  input whose lowercase form contains \<open>red\<close> and at least one of the category keywords
  \<open>sphere\<close>, \<open>box\<close>, \<open>torus\<close>, \<open>icosa\<close>, every sphere entry of the compiled plan has color
  \<open>tomato\<close>, also when \<open>red\<close> stands next to another category. (With no category keyword the
  plan is the default entry, a sphere whose color is always \<open>#9cf\<close>.)
\<close>

theorem red_colours_rule_spheres:
  assumes red: "str_includes (toLowerCase input) ''red''"
    and kw: "str_includes (toLowerCase input) ''sphere'' \<or>
             str_includes (toLowerCase input) ''box'' \<or>
             str_includes (toLowerCase input) ''torus'' \<or>
             str_includes (toLowerCase input) ''icosa''"
  shows "\<forall>ob \<in> set (objects (planSceneFromTextMock input)).
           shape ob = sphere \<longrightarrow> color ob = Some ''tomato''"
proof (intro ballI impI)
  fix ob
  assume mem: "ob \<in> set (objects (planSceneFromTextMock input))" and sph: "shape ob = sphere"
  let ?l = "toLowerCase input"
  let ?s = "push_sphere ?l []"
  let ?b = "push_box ?l ?s"
  let ?t = "push_torus ?l ?b"
  let ?i = "push_icosa ?l ?t"
  have s: "str_includes ?l ''sphere'' \<Longrightarrow> ?s \<noteq> []"
    using push_sphere_nonempty [of ?l "[]"] by simp
  have b: "str_includes ?l ''box'' \<or> ?s \<noteq> [] \<Longrightarrow> ?b \<noteq> []"
    by (rule push_box_nonempty)
  have t: "str_includes ?l ''torus'' \<or> ?b \<noteq> [] \<Longrightarrow> ?t \<noteq> []"
    by (rule push_torus_nonempty)
  have i: "str_includes ?l ''icosa'' \<or> ?t \<noteq> [] \<Longrightarrow> ?i \<noteq> []"
    by (rule push_icosa_nonempty)
  from kw s b t i have "?i \<noteq> []" by blast
  then have "objects (planSceneFromTextMock input) = ?i"
    by (simp add: planSceneFromTextMock_def Let_def push_default_def)
  with mem have "ob \<in> set ?i" by simp
  from push_icosa_shape [OF this] sph have "ob \<in> set ?t" by simp
  from push_torus_shape [OF this] sph have "ob \<in> set ?b" by simp
  from push_box_shape [OF this] sph have "ob \<in> set ?s" by simp
  from push_sphere_red [OF red this] show "color ob = Some ''tomato''" by simp
qed

lemma lower_spheres_red_boxes:
  "toLowerCase ''spheres, red boxes'' = ''spheres, red boxes''"
  by code_simp

lemma compile_spheres_red_boxes:
  "planSceneFromTextMock ''spheres, red boxes'' =
     \<lparr>objects =
        [\<lparr>shape = sphere, count = Some 5, color = Some ''tomato'', material = Some standard,
          size_m = Some 0.06, metalness = Some 0.2, roughness = Some 0.6,
          motion = Some none, radius = Some 1.2\<rparr>,
         \<lparr>shape = box, count = Some 10, color = Some ''#ff9'', material = Some standard,
          size_m = Some 0.08, metalness = Some 0.1, roughness = Some 0.8,
          motion = Some orbit, radius = Some 1.0\<rparr>]\<rparr>"
  by code_simp

theorem red_colours_rule_spheres_witness:
  "str_includes (toLowerCase ''spheres, red boxes'') ''red'' \<and>
   str_includes (toLowerCase ''spheres, red boxes'') ''sphere'' \<and>
   hd (objects (planSceneFromTextMock ''spheres, red boxes''))
     \<in> set (objects (planSceneFromTextMock ''spheres, red boxes'')) \<and>
   shape (hd (objects (planSceneFromTextMock ''spheres, red boxes''))) = sphere \<and>
   color (hd (objects (planSceneFromTextMock ''spheres, red boxes''))) = Some ''tomato''"
proof -
  have red: "str_includes (toLowerCase ''spheres, red boxes'') ''red''"
    by (simp add: lower_spheres_red_boxes)
  have kw: "str_includes (toLowerCase ''spheres, red boxes'') ''sphere''"
    by (simp add: lower_spheres_red_boxes)
  have mem: "hd (objects (planSceneFromTextMock ''spheres, red boxes''))
               \<in> set (objects (planSceneFromTextMock ''spheres, red boxes''))"
    and sph: "shape (hd (objects (planSceneFromTextMock ''spheres, red boxes''))) = sphere"
    by (simp_all add: compile_spheres_red_boxes)
  from red_colours_rule_spheres [of "''spheres, red boxes''"] red kw mem sph
  have "color (hd (objects (planSceneFromTextMock ''spheres, red boxes''))) = Some ''tomato''"
    by blast
  with red kw mem sph show ?thesis by blast
qed

text \<open>
  Claim C10 as stated fails on the input \<open>red\<close>: it contains \<open>red\<close>, and the plan is the
  default sphere, whose color is \<open>#9cf\<close>.
\<close>

theorem red_default_sphere_counterexample:
  "str_includes (toLowerCase ''red'') ''red'' \<and>
   \<not> (\<forall>ob \<in> set (objects (planSceneFromTextMock ''red'')).
           shape ob = sphere \<longrightarrow> color ob = Some ''tomato'')"
proof -
  have "str_includes (toLowerCase ''red'') ''red''" by code_simp
  moreover have "planSceneFromTextMock ''red'' =
     \<lparr>objects = [\<lparr>shape = sphere, count = Some 10, color = Some ''#9cf'',
                   material = Some standard, size_m = Some 0.06, metalness = Some 0.2,
                   roughness = Some 0.7, motion = Some orbit, radius = Some 1.2\<rparr>]\<rparr>"
    by code_simp
  ultimately show ?thesis by simp
qed


section \<open>The clamp pass\<close>

lemma clamp_field_in_range:
  assumes "v \<noteq> NotANumber" and "lo \<le> hi"
  shows "fin_in (Some (Math_min_d (Math_max_d v (Fin lo)) (Fin hi))) lo hi"
  using assms by (cases v) auto

lemma clamp_object_ranges:
  "(count ob \<noteq> Some NotANumber \<longrightarrow> fin_in (count (clamp_object ob)) 1 200) \<and>
   (size_m ob \<noteq> Some NotANumber \<longrightarrow> fin_in (size_m (clamp_object ob)) 0.02 0.4) \<and>
   (radius ob \<noteq> Some NotANumber \<longrightarrow> fin_in (radius (clamp_object ob)) 0.2 5) \<and>
   (metalness ob \<noteq> Some NotANumber \<longrightarrow> fin_in (metalness (clamp_object ob)) 0 1) \<and>
   (roughness ob \<noteq> Some NotANumber \<longrightarrow> fin_in (roughness (clamp_object ob)) 0 1)"
proof (intro conjI impI)
  assume "count ob \<noteq> Some NotANumber"
  then have "nullish (count ob) (Fin 1) \<noteq> NotANumber" by (cases "count ob") auto
  then show "fin_in (count (clamp_object ob)) 1 200"
    by (simp add: clamp_object_def clamp_field_in_range)
next
  assume "size_m ob \<noteq> Some NotANumber"
  then have "nullish (size_m ob) (Fin 0.06) \<noteq> NotANumber" by (cases "size_m ob") auto
  then show "fin_in (size_m (clamp_object ob)) 0.02 0.4"
    by (simp add: clamp_object_def clamp_field_in_range)
next
  assume "radius ob \<noteq> Some NotANumber"
  then have "nullish (radius ob) (Fin 1.2) \<noteq> NotANumber" by (cases "radius ob") auto
  then show "fin_in (radius (clamp_object ob)) 0.2 5"
    by (simp add: clamp_object_def clamp_field_in_range)
next
  assume "metalness ob \<noteq> Some NotANumber"
  then have "nullish (metalness ob) (Fin 0.2) \<noteq> NotANumber" by (cases "metalness ob") auto
  then show "fin_in (metalness (clamp_object ob)) 0 1"
    by (simp add: clamp_object_def clamp_field_in_range)
next
  assume "roughness ob \<noteq> Some NotANumber"
  then have "nullish (roughness ob) (Fin 0.7) \<noteq> NotANumber" by (cases "roughness ob") auto
  then show "fin_in (roughness (clamp_object ob)) 0 1"
    by (simp add: clamp_object_def clamp_field_in_range)
qed

lemma clamp_object_defaults:
  "(count ob = None \<longrightarrow> count (clamp_object ob) = Some (Fin 1)) \<and>
   (size_m ob = None \<longrightarrow> size_m (clamp_object ob) = Some (Fin 0.06)) \<and>
   (radius ob = None \<longrightarrow> radius (clamp_object ob) = Some (Fin 1.2)) \<and>
   (metalness ob = None \<longrightarrow> metalness (clamp_object ob) = Some (Fin 0.2)) \<and>
   (roughness ob = None \<longrightarrow> roughness (clamp_object ob) = Some (Fin 0.7))"
  by (simp add: clamp_object_def)

text \<open>
  Claim C3, amended. For every plan, the clamp pass returns a plan with the same number
  of entries, and in each entry every numeric field that is not \<open>NaN\<close> in the input (a finite
  number, an infinity, or missing) is a finite number in its range in the result: count in
  1..200, size in 0.02..0.4, radius in 0.2..5, metalness and roughness in 0..1. A numeric
  field missing from the input entry holds its default in the result: count 1, size 0.06,
  radius 1.2, metalness 0.2, roughness 0.7.
\<close>

theorem clamp_pass_in_ranges_unless_NaN:
  "length (objects (clamp_pass plan)) = length (objects plan) \<and>
   (\<forall>i < length (objects plan).
      (count (objects plan ! i) \<noteq> Some NotANumber \<longrightarrow>
         fin_in (count (objects (clamp_pass plan) ! i)) 1 200) \<and>
      (size_m (objects plan ! i) \<noteq> Some NotANumber \<longrightarrow>
         fin_in (size_m (objects (clamp_pass plan) ! i)) 0.02 0.4) \<and>
      (radius (objects plan ! i) \<noteq> Some NotANumber \<longrightarrow>
         fin_in (radius (objects (clamp_pass plan) ! i)) 0.2 5) \<and>
      (metalness (objects plan ! i) \<noteq> Some NotANumber \<longrightarrow>
         fin_in (metalness (objects (clamp_pass plan) ! i)) 0 1) \<and>
      (roughness (objects plan ! i) \<noteq> Some NotANumber \<longrightarrow>
         fin_in (roughness (objects (clamp_pass plan) ! i)) 0 1) \<and>
      (count (objects plan ! i) = None \<longrightarrow>
         count (objects (clamp_pass plan) ! i) = Some (Fin 1)) \<and>
      (size_m (objects plan ! i) = None \<longrightarrow>
         size_m (objects (clamp_pass plan) ! i) = Some (Fin 0.06)) \<and>
      (radius (objects plan ! i) = None \<longrightarrow>
         radius (objects (clamp_pass plan) ! i) = Some (Fin 1.2)) \<and>
      (metalness (objects plan ! i) = None \<longrightarrow>
         metalness (objects (clamp_pass plan) ! i) = Some (Fin 0.2)) \<and>
      (roughness (objects plan ! i) = None \<longrightarrow>
         roughness (objects (clamp_pass plan) ! i) = Some (Fin 0.7)))"
  using clamp_object_ranges clamp_object_defaults
  by (simp add: clamp_pass_def)

theorem clamp_pass_in_ranges_unless_NaN_witness:
  "(0::nat) < length (objects \<lparr>objects =
      [\<lparr>shape = box, count = Some (Fin 1000), color = None, material = None, size_m = None,
        metalness = Some NegInf, roughness = Some (Fin 0.5), motion = None,
        radius = Some (Fin 0.01)\<rparr>]\<rparr>) \<and>
   Some (Fin 1000) \<noteq> Some NotANumber \<and> None \<noteq> Some NotANumber \<and>
   Some NegInf \<noteq> Some NotANumber \<and> Some (Fin 0.5) \<noteq> Some NotANumber \<and>
   Some (Fin 0.01) \<noteq> Some NotANumber \<and>
   objects (clamp_pass \<lparr>objects =
      [\<lparr>shape = box, count = Some (Fin 1000), color = None, material = None, size_m = None,
        metalness = Some NegInf, roughness = Some (Fin 0.5), motion = None,
        radius = Some (Fin 0.01)\<rparr>]\<rparr>) ! 0 =
      \<lparr>shape = box, count = Some (Fin 200), color = None, material = None,
        size_m = Some (Fin 0.06), metalness = Some (Fin 0), roughness = Some (Fin 0.5),
        motion = None, radius = Some (Fin 0.2)\<rparr> \<and>
   fin_in (count (objects (clamp_pass \<lparr>objects =
      [\<lparr>shape = box, count = Some (Fin 1000), color = None, material = None, size_m = None,
        metalness = Some NegInf, roughness = Some (Fin 0.5), motion = None,
        radius = Some (Fin 0.01)\<rparr>]\<rparr>) ! 0)) 1 200 \<and>
   fin_in (metalness (objects (clamp_pass \<lparr>objects =
      [\<lparr>shape = box, count = Some (Fin 1000), color = None, material = None, size_m = None,
        metalness = Some NegInf, roughness = Some (Fin 0.5), motion = None,
        radius = Some (Fin 0.01)\<rparr>]\<rparr>) ! 0)) 0 1"
  using clamp_pass_in_ranges_unless_NaN [of "\<lparr>objects =
      [\<lparr>shape = box, count = Some (Fin 1000), color = None, material = None, size_m = None,
        metalness = Some NegInf, roughness = Some (Fin 0.5), motion = None,
        radius = Some (Fin 0.01)\<rparr>]\<rparr>"]
  by (simp add: clamp_pass_def clamp_object_def)

text \<open>
  Claim C3 as stated fails on a plan that holds \<open>NaN\<close>: \<open>NaN ?? 1\<close> is \<open>NaN\<close>, and
  \<open>Math.max\<close> and \<open>Math.min\<close> hand it on, so the count of the entry is still \<open>NaN\<close> after
  the pass and lies in no range.
\<close>

theorem clamp_pass_NaN_counterexample:
  "count (objects (clamp_pass \<lparr>objects =
      [\<lparr>shape = sphere, count = Some NotANumber, color = None, material = None,
        size_m = Some (Fin 0.06), metalness = Some (Fin 0.2), roughness = Some (Fin 0.7),
        motion = None, radius = Some (Fin 1.2)\<rparr>]\<rparr>) ! 0) = Some NotANumber \<and>
   \<not> fin_in (count (objects (clamp_pass \<lparr>objects =
      [\<lparr>shape = sphere, count = Some NotANumber, color = None, material = None,
        size_m = Some (Fin 0.06), metalness = Some (Fin 0.2), roughness = Some (Fin 0.7),
        motion = None, radius = Some (Fin 1.2)\<rparr>]\<rparr>) ! 0)) 1 200"
  by (simp add: clamp_pass_def clamp_object_def)


section \<open>The scale of the tower model\<close>





section \<open>The instance layout\<close>

lemma ToLength_nat: "1 \<le> n \<Longrightarrow> n < 2 ^ 32 \<Longrightarrow> ToLength (Some (real n)) = n"
  by (simp add: ToLength_def)

text \<open>
  The layout for any radius: the radius that enters is \<open>max(radius ?? 1.2, 0.2)\<close>.
\<close>

lemma instances_entries:
  assumes cnt: "count spec = Some (real n)" and n1: "1 \<le> n" and n2: "n < 2 ^ 32"
  shows "\<exists>ls. instances spec seed = Inr ls \<and> length ls = n \<and>
           (\<forall>i < n.
              ang (ls ! i) = ((real i + seed) / real n) * (2 * pi) \<and>
              speed (ls ! i) = 0.4 + real (i mod 7) * 0.03 \<and>
              r_i (ls ! i) = max (nullish (radius spec) 1.2) 0.2 * (0.9 + real (i mod 5) * 0.02))"
proof -
  have len: "ToLength (Some (real n)) = n"
    using n1 n2 by (rule ToLength_nat)
  let ?r = "max (nullish (radius spec) 1.2) 0.2"
  let ?f = "\<lambda>i. \<lparr>ang = ((real i + seed) / real n) * pi * 2,
                 y_i = (sin (real i * 12.9898 + seed) * 0.5 + 0.5) * 0.6 + 0.2,
                 speed = 0.4 + real (i mod 7) * 0.03,
                 r_i = ?r * (0.9 + real (i mod 5) * 0.02)\<rparr>"
  have eq: "instances spec seed = Inr (map ?f [0..<n])"
    using n2 by (simp add: instances_def Let_def len cnt)
  have "\<forall>i < n.
          ang (map ?f [0..<n] ! i) = ((real i + seed) / real n) * (2 * pi) \<and>
          speed (map ?f [0..<n] ! i) = 0.4 + real (i mod 7) * 0.03 \<and>
          r_i (map ?f [0..<n] ! i) = ?r * (0.9 + real (i mod 5) * 0.02)"
    by simp
  with eq show ?thesis by simp
qed

text \<open>
  Claim C4. For every ObjectSpec with count at least 1 and every integer seed, the layout
  is a sequence of exactly \<open>count\<close> entries, and entry \<open>i\<close> has angle
  \<open>((i + seed) / count) * 2\<pi>\<close>, speed \<open>0.4 + (i mod 7) * 0.03\<close> and radius
  \<open>spec.radius * (0.9 + (i mod 5) * 0.02)\<close>. An ObjectSpec is one of the data model: its
  count is an integer and its radius is present and at least 0.2, as in every entry the
  program hands to \<open>FloatingObjects\<close> (a compiled or a clamped one); the theorem asks no more
  of it than that, and that the count is below \<open>2^32\<close>, the length limit of an array.
  \<open>instances\<close> is a function of the spec and the seed only (the source reads nothing
  else), so two calls on the same arguments return the same sequence.
\<close>

theorem instances_layout:
  assumes cnt: "count spec = Some (real n)" and n1: "1 \<le> n" and n2: "n < 2 ^ 32"
    and rad: "radius spec = Some r" and r1: "0.2 \<le> r"
  shows "\<exists>ls. instances spec (of_int seed) = Inr ls \<and> length ls = n \<and>
           (\<forall>i < n.
              ang (ls ! i) = ((real i + of_int seed) / real n) * (2 * pi) \<and>
              speed (ls ! i) = 0.4 + real (i mod 7) * 0.03 \<and>
              r_i (ls ! i) = r * (0.9 + real (i mod 5) * 0.02))"
proof -
  have "max (nullish (radius spec) 1.2) 0.2 = r"
    using rad r1 by simp
  with instances_entries [OF cnt n1 n2, of "of_int seed"] show ?thesis
    by simp
qed

theorem instances_layout_witness:
  "count \<lparr>shape = box, count = Some (real 3), color = None, material = None, size_m = None,
           metalness = None, roughness = None, motion = None, radius = Some 1\<rparr> = Some (real 3) \<and>
   (1::nat) \<le> 3 \<and> (3::nat) < 2 ^ 32 \<and>
   radius \<lparr>shape = box, count = Some (real 3), color = None, material = None, size_m = None,
            metalness = None, roughness = None, motion = None, radius = Some 1\<rparr> = Some 1 \<and>
   (0.2::real) \<le> 1 \<and>
   (\<exists>ls. instances \<lparr>shape = box, count = Some (real 3), color = None, material = None,
                     size_m = None, metalness = None, roughness = None, motion = None,
                     radius = Some 1\<rparr> (of_int 20) = Inr ls \<and> length ls = 3 \<and>
          ang (ls ! 2) = ((real 2 + of_int 20) / real 3) * (2 * pi) \<and>
          speed (ls ! 2) = 0.4 + real (2 mod 7) * 0.03 \<and>
          r_i (ls ! 2) = 1 * (0.9 + real (2 mod 5) * 0.02))"
  using instances_layout [of "\<lparr>shape = box, count = Some (real 3), color = None,
      material = None, size_m = None, metalness = None, roughness = None, motion = None,
      radius = Some 1\<rparr>" 3 1 20]
  by auto

text \<open>
  Claim C5, amended. For a spec with count 1 and radius 1.2, and seed 0, the layout is
  exactly one entry, with angle 0 and radius \<open>1.2 * 0.9 = 1.08\<close>.
\<close>

theorem single_instance_layout:
  assumes "count spec = Some 1" and "radius spec = Some 1.2"
  shows "\<exists>l. instances spec 0 = Inr [l] \<and> ang l = 0 \<and> r_i l = 1.08"
  using assms by (simp add: instances_def ToLength_def)

theorem single_instance_layout_witness:
  "\<exists>l. instances \<lparr>shape = sphere, count = Some 1, color = None, material = None,
                   size_m = None, metalness = None, roughness = None, motion = None,
                   radius = Some 1.2\<rparr> 0 = Inr [l] \<and> ang l = 0 \<and> r_i l = 1.08"
  using single_instance_layout [of "\<lparr>shape = sphere, count = Some 1, color = None,
      material = None, size_m = None, metalness = None, roughness = None, motion = None,
      radius = Some 1.2\<rparr>"]
  by simp

text \<open>
  Claim C5 as stated fails: the radius of that entry is 1.08, not 1.2.
\<close>

theorem single_instance_radius_counterexample:
  "instances \<lparr>shape = sphere, count = Some 1, color = None, material = None, size_m = None,
              metalness = None, roughness = None, motion = None, radius = Some 1.2\<rparr> 0
     = Inr [\<lparr>ang = 0, y_i = 0.5, speed = 0.4, r_i = 1.08\<rparr>] \<and>
   (1.08 :: real) \<noteq> 1.2"
  by (simp add: instances_def ToLength_def)


section \<open>Orbit positions\<close>

lemma useFrame_Some:
  "useFrame spec insts f (Some cs) =
     Some (map (\<lambda>(i, child). update_child spec insts (fst f) (snd f) i child) (enumerate 0 cs))"
  by (simp add: useFrame_def)

lemma run_frames_Some:
  "\<exists>cs'. run_frames spec insts fs (Some cs) = Some cs' \<and> length cs' = length cs"
proof (induction fs arbitrary: cs)
  case Nil
  show ?case by (simp add: run_frames_def)
next
  case (Cons f fs)
  have "run_frames spec insts (f # fs) (Some cs) =
        run_frames spec insts fs (useFrame spec insts f (Some cs))"
    by (simp add: run_frames_def)
  with Cons [of "map (\<lambda>(i, child). update_child spec insts (fst f) (snd f) i child)
                     (enumerate 0 cs)"]
  show ?case by (simp add: useFrame_Some)
qed

lemma run_frames_snoc:
  "run_frames spec insts (fs @ [f]) g = useFrame spec insts f (run_frames spec insts fs g)"
  by (simp add: run_frames_def)

lemma update_child_orbit:
  assumes "motion spec = Some orbit" and "i < length insts"
  shows "position (update_child spec insts now dt i obj) =
           (cos (ang (insts ! i) + speed (insts ! i) * now * 0.00015) * r_i (insts ! i),
            y_i (insts ! i),
            sin (ang (insts ! i) + speed (insts ! i) * now * 0.00015) * r_i (insts ! i))"
  using assms by (simp add: update_child_def Let_def split: prod.splits)

lemma last_frame_orbit:
  assumes "motion spec = Some orbit" and "i < length insts" and "i < length cs"
  shows "\<exists>out. run_frames spec insts (fs @ [(T, d)]) (Some cs) = Some out \<and>
           length out = length cs \<and>
           position (out ! i) =
             (cos (ang (insts ! i) + speed (insts ! i) * T * 0.00015) * r_i (insts ! i),
              y_i (insts ! i),
              sin (ang (insts ! i) + speed (insts ! i) * T * 0.00015) * r_i (insts ! i))"
proof -
  obtain cs' where cs': "run_frames spec insts fs (Some cs) = Some cs'" "length cs' = length cs"
    using run_frames_Some by blast
  have "run_frames spec insts (fs @ [(T, d)]) (Some cs) =
          Some (map (\<lambda>(j, child). update_child spec insts T d j child) (enumerate 0 cs'))"
    by (simp add: run_frames_snoc cs' useFrame_Some)
  moreover have "position (map (\<lambda>(j, child). update_child spec insts T d j child)
                     (enumerate 0 cs') ! i) =
             (cos (ang (insts ! i) + speed (insts ! i) * T * 0.00015) * r_i (insts ! i),
              y_i (insts ! i),
              sin (ang (insts ! i) + speed (insts ! i) * T * 0.00015) * r_i (insts ! i))"
    using assms cs' by (simp add: nth_enumerate_eq update_child_orbit)
  ultimately show ?thesis using cs' by simp
qed

text \<open>
  Claim C6. Let the motion be \<open>orbit\<close>. Take two runs of the frame callback over any two
  frame histories \<open>fs1\<close> and \<open>fs2\<close> (any clock readings, any frame deltas, any number of calls),
  from any two states of the children, each run ending with a frame at clock reading \<open>T\<close>.
  For every child \<open>i\<close> that has an instance, both runs leave it at the same position, namely
  \<open>(cos a * r, y, sin a * r)\<close> with \<open>a = ang + speed * T * 0.00015\<close> taken from instance \<open>i\<close>.
\<close>

theorem orbit_position_depends_on_time_only:
  assumes "motion spec = Some orbit" and "i < length insts"
    and "i < length cs1" and "i < length cs2"
  shows "\<exists>out1 out2.
           run_frames spec insts (fs1 @ [(T, d1)]) (Some cs1) = Some out1 \<and>
           run_frames spec insts (fs2 @ [(T, d2)]) (Some cs2) = Some out2 \<and>
           position (out1 ! i) = position (out2 ! i) \<and>
           position (out1 ! i) =
             (cos (ang (insts ! i) + speed (insts ! i) * T * 0.00015) * r_i (insts ! i),
              y_i (insts ! i),
              sin (ang (insts ! i) + speed (insts ! i) * T * 0.00015) * r_i (insts ! i))"
proof -
  obtain out1 where 1: "run_frames spec insts (fs1 @ [(T, d1)]) (Some cs1) = Some out1"
     "position (out1 ! i) =
             (cos (ang (insts ! i) + speed (insts ! i) * T * 0.00015) * r_i (insts ! i),
              y_i (insts ! i),
              sin (ang (insts ! i) + speed (insts ! i) * T * 0.00015) * r_i (insts ! i))"
    using last_frame_orbit [OF assms(1,2,3)] by blast
  obtain out2 where 2: "run_frames spec insts (fs2 @ [(T, d2)]) (Some cs2) = Some out2"
     "position (out2 ! i) =
             (cos (ang (insts ! i) + speed (insts ! i) * T * 0.00015) * r_i (insts ! i),
              y_i (insts ! i),
              sin (ang (insts ! i) + speed (insts ! i) * T * 0.00015) * r_i (insts ! i))"
    using last_frame_orbit [OF assms(1,2,4)] by blast
  from 1 2 show ?thesis by simp
qed

theorem orbit_position_depends_on_time_only_witness:
  "motion \<lparr>shape = sphere, count = Some 1, color = None, material = None, size_m = None,
           metalness = None, roughness = None, motion = Some orbit, radius = Some 1.2\<rparr>
     = Some orbit \<and>
   (0::nat) < length [\<lparr>ang = 0, y_i = 0.5, speed = 0.4, r_i = 1.08\<rparr>] \<and>
   (0::nat) < length [\<lparr>position = (0, 0, 0), rotation = (0, 0, 0)\<rparr>] \<and>
   (\<exists>out1 out2.
      run_frames \<lparr>shape = sphere, count = Some 1, color = None, material = None,
                   size_m = None, metalness = None, roughness = None, motion = Some orbit,
                   radius = Some 1.2\<rparr>
        [\<lparr>ang = 0, y_i = 0.5, speed = 0.4, r_i = 1.08\<rparr>]
        ([] @ [(5000, 5)])
        (Some [\<lparr>position = (0, 0, 0), rotation = (0, 0, 0)\<rparr>]) = Some out1 \<and>
      run_frames \<lparr>shape = sphere, count = Some 1, color = None, material = None,
                   size_m = None, metalness = None, roughness = None, motion = Some orbit,
                   radius = Some 1.2\<rparr>
        [\<lparr>ang = 0, y_i = 0.5, speed = 0.4, r_i = 1.08\<rparr>]
        ([(1000, 0.016), (3000, 2)] @ [(5000, 0.016)])
        (Some [\<lparr>position = (0, 0, 0), rotation = (0, 0, 0)\<rparr>]) = Some out2 \<and>
      position (out1 ! 0) = position (out2 ! 0) \<and>
      position (out1 ! 0) = (cos 0.3 * 1.08, 0.5, sin 0.3 * 1.08))"
  using orbit_position_depends_on_time_only
    [of "\<lparr>shape = sphere, count = Some 1, color = None, material = None, size_m = None,
          metalness = None, roughness = None, motion = Some orbit, radius = Some 1.2\<rparr>"
        0 "[\<lparr>ang = 0, y_i = 0.5, speed = 0.4, r_i = 1.08\<rparr>]"
        "[\<lparr>position = (0, 0, 0), rotation = (0, 0, 0)\<rparr>]"
        "[\<lparr>position = (0, 0, 0), rotation = (0, 0, 0)\<rparr>]"
        "[]" 5000 5 "[(1000, 0.016), (3000, 2)]" "0.016"]
  by simp

end
